theory Spec2Isabelle
  imports Main "HOL-Library.Sublist"
begin

section \<open>The header \<^verbatim>\<open>cbits/stubs.h\<close> as data\<close>

text \<open>
  The repository is one C header. It has no functions of its own to run: what it does
  is decided by the C preprocessor reading it. So the header is written down line by
  line, and the part of the preprocessor that the header exercises (conditional groups,
  \<^verbatim>\<open>#define\<close>, \<^verbatim>\<open>#undef\<close>, \<^verbatim>\<open>#include\<close>) is a function over those lines.
\<close>

subsection \<open>C types and function declarations\<close>

text \<open>
  A type is a name with \<^verbatim>\<open>const\<close> and pointer layers around it:
  \<^verbatim>\<open>const void *\<close> is \<open>TPtr (TConst (TName ''void''))\<close>,
  \<^verbatim>\<open>void **\<close> is \<open>TPtr (TPtr (TName ''void''))\<close>.
\<close>

datatype ctype = TName string | TConst ctype | TPtr ctype

text \<open>
  A prototype: return type, the calling-convention annotation between the return type
  and the name when there is one (\<^verbatim>\<open>CUDAAPI\<close>), the name, and the parameters in
  order, each with its type and its name.
\<close>

record fundecl =
  fd_ret :: ctype
  fd_conv :: "string option"
  fd_name :: string
  fd_params :: "(ctype \<times> string) list"

abbreviation proto :: "ctype \<Rightarrow> string option \<Rightarrow> string \<Rightarrow> (ctype \<times> string) list \<Rightarrow> fundecl" where
  "proto r c n ps \<equiv> \<lparr>fd_ret = r, fd_conv = c, fd_name = n, fd_params = ps\<rparr>"

abbreviation t_int :: ctype where "t_int \<equiv> TName ''int''"
abbreviation t_uint :: ctype where "t_uint \<equiv> TName ''unsigned int''"
abbreviation t_uchar :: ctype where "t_uchar \<equiv> TName ''unsigned char''"
abbreviation t_ushort :: ctype where "t_ushort \<equiv> TName ''unsigned short''"
abbreviation t_size :: ctype where "t_size \<equiv> TName ''size_t''"
abbreviation t_void :: ctype where "t_void \<equiv> TName ''void''"
abbreviation t_char :: ctype where "t_char \<equiv> TName ''char''"
abbreviation cudaError_t :: ctype where "cudaError_t \<equiv> TName ''cudaError_t''"
abbreviation cudaStream_t :: ctype where "cudaStream_t \<equiv> TName ''cudaStream_t''"
abbreviation CUresult :: ctype where "CUresult \<equiv> TName ''CUresult''"
abbreviation CUdeviceptr :: ctype where "CUdeviceptr \<equiv> TName ''CUdeviceptr''"
abbreviation CUdevice :: ctype where "CUdevice \<equiv> TName ''CUdevice''"
abbreviation CUcontext :: ctype where "CUcontext \<equiv> TName ''CUcontext''"
abbreviation CUmodule :: ctype where "CUmodule \<equiv> TName ''CUmodule''"
abbreviation CUstream :: ctype where "CUstream \<equiv> TName ''CUstream''"
abbreviation CUevent :: ctype where "CUevent \<equiv> TName ''CUevent''"
abbreviation CUtexref :: ctype where "CUtexref \<equiv> TName ''CUtexref''"
abbreviation CUarray_format :: ctype where "CUarray_format \<equiv> TName ''CUarray_format''"
abbreviation CUjit_option :: ctype where "CUjit_option \<equiv> TName ''CUjit_option''"
abbreviation CUjitInputType :: ctype where "CUjitInputType \<equiv> TName ''CUjitInputType''"
abbreviation CUlinkState :: ctype where "CUlinkState \<equiv> TName ''CUlinkState''"
abbreviation CUDAAPI :: "string option" where "CUDAAPI \<equiv> Some ''CUDAAPI''"

subsection \<open>Lines of a header\<close>

text \<open>
  The three conditions the header uses: \<^verbatim>\<open>#ifdef M\<close>, \<^verbatim>\<open>#ifndef M\<close> and
  \<^verbatim>\<open>#if M >= n\<close>.
\<close>

datatype cond = IfDef string | IfNDef string | IfGE string int

text \<open>
  One constructor for each kind of line a header can hold. \<open>Comment\<close> keeps the text
  of a comment, so a declaration or directive that is commented out is still visible in
  the model, as a comment. \<open>PDefine\<close> carries the macro and its replacement text.
  \<open>ExternCOpen\<close> is the line \<^verbatim>\<open>extern "C" {\<close> and \<open>ExternCClose\<close> the brace
  that closes it. \<open>FunDef\<close> (a function with a body) and \<open>ObjDef\<close> (a variable) are
  what a header could contain beyond prototypes.
\<close>

datatype line =
    Comment string
  | PIf cond
  | PEndif
  | PDefine string string
  | PUndef string
  | PInclude string
  | ExternCOpen
  | ExternCClose
  | Decl fundecl
  | FunDef fundecl string
  | ObjDef ctype string

subsection \<open>The header, in the order of the file\<close>

text \<open>Lines 1 to 6: the leading comment and the opening of the include guard.\<close>

definition guard_open :: "line list" where
  "guard_open =
   [ Comment ''Extra bits for CUDA bindings'',
     PIf (IfNDef ''C_STUBS_H''),
     PDefine ''C_STUBS_H'' [] ]"

text \<open>Lines 8 to 16: the calling convention on MinGW, and the vendor headers.\<close>

definition header_includes :: "line list" where
  "header_includes =
   [ PIf (IfDef ''__MINGW32__''),
     PInclude ''host_defines.h'',
     PUndef ''CUDARTAPI'',
     PDefine ''CUDARTAPI'' ''__stdcall'',
     PEndif,
     PInclude ''cuda.h'',
     PInclude ''cudaProfiler.h'',
     PInclude ''cuda_runtime_api.h'' ]"

text \<open>Lines 18 to 20.\<close>

definition extern_open :: "line list" where
  "extern_open = [ PIf (IfDef ''__cplusplus''), ExternCOpen, PEndif ]"

text \<open>Lines 22 to 104: the eight simplified wrappers, and the comment before the gated blocks.\<close>

definition wrappers :: "line list" where
  "wrappers =
   [ Decl (proto cudaError_t None ''cudaConfigureCallSimple''
       [ (t_int, ''gridX''), (t_int, ''gridY''),
         (t_int, ''blockX''), (t_int, ''blockY''), (t_int, ''blockZ''),
         (t_size, ''sharedMem''),
         (cudaStream_t, ''stream'') ]),
     Decl (proto CUresult None ''cuTexRefSetAddress2DSimple''
       [ (CUtexref, ''tex''),
         (CUarray_format, ''format''),
         (t_uint, ''numChannels''),
         (CUdeviceptr, ''dptr''),
         (t_size, ''width''),
         (t_size, ''height''),
         (t_size, ''pitch'') ]),
     Decl (proto CUresult None ''cuMemcpy2DHtoD''
       [ (CUdeviceptr, ''dstDevice''), (t_uint, ''dstPitch''), (t_uint, ''dstXInBytes''), (t_uint, ''dstY''),
         (TPtr t_void, ''srcHost''), (t_uint, ''srcPitch''), (t_uint, ''srcXInBytes''), (t_uint, ''srcY''),
         (t_uint, ''widthInBytes''),
         (t_uint, ''height'') ]),
     Decl (proto CUresult None ''cuMemcpy2DHtoDAsync''
       [ (CUdeviceptr, ''dstDevice''), (t_uint, ''dstPitch''), (t_uint, ''dstXInBytes''), (t_uint, ''dstY''),
         (TPtr t_void, ''srcHost''), (t_uint, ''srcPitch''), (t_uint, ''srcXInBytes''), (t_uint, ''srcY''),
         (t_uint, ''widthInBytes''),
         (t_uint, ''height''),
         (CUstream, ''hStream'') ]),
     Decl (proto CUresult None ''cuMemcpy2DDtoH''
       [ (TPtr t_void, ''dstHost''), (t_uint, ''dstPitch''), (t_uint, ''dstXInBytes''), (t_uint, ''dstY''),
         (CUdeviceptr, ''srcDevice''), (t_uint, ''srcPitch''), (t_uint, ''srcXInBytes''), (t_uint, ''srcY''),
         (t_uint, ''widthInBytes''),
         (t_uint, ''height'') ]),
     Decl (proto CUresult None ''cuMemcpy2DDtoHAsync''
       [ (TPtr t_void, ''dstHost''), (t_uint, ''dstPitch''), (t_uint, ''dstXInBytes''), (t_uint, ''dstY''),
         (CUdeviceptr, ''srcDevice''), (t_uint, ''srcPitch''), (t_uint, ''srcXInBytes''), (t_uint, ''srcY''),
         (t_uint, ''widthInBytes''),
         (t_uint, ''height''),
         (CUstream, ''hStream'') ]),
     Decl (proto CUresult None ''cuMemcpy2DDtoD''
       [ (CUdeviceptr, ''dstDevice''), (t_uint, ''dstPitch''), (t_uint, ''dstXInBytes''), (t_uint, ''dstY''),
         (CUdeviceptr, ''srcDevice''), (t_uint, ''srcPitch''), (t_uint, ''srcXInBytes''), (t_uint, ''srcY''),
         (t_uint, ''widthInBytes''),
         (t_uint, ''height'') ]),
     Decl (proto CUresult None ''cuMemcpy2DDtoDAsync''
       [ (CUdeviceptr, ''dstDevice''), (t_uint, ''dstPitch''), (t_uint, ''dstXInBytes''), (t_uint, ''dstY''),
         (CUdeviceptr, ''srcDevice''), (t_uint, ''srcPitch''), (t_uint, ''srcXInBytes''), (t_uint, ''srcY''),
         (t_uint, ''widthInBytes''),
         (t_uint, ''height''),
         (CUstream, ''hStream'') ]),
     Comment ''Need to re-export some symbols as they are now generated by #defines, which c2hs does not like in the function binding hooks.'' ]"

text \<open>Lines 106 to 190: what stands between \<^verbatim>\<open>#if CUDA_VERSION >= 3020\<close> and its \<^verbatim>\<open>#endif\<close>.\<close>

definition body3020 :: "line list" where
  "body3020 =
   [ PUndef ''cuDeviceTotalMem'',
     PUndef ''cuCtxCreate'',
     PUndef ''cuModuleGetGlobal'',
     PUndef ''cuMemGetInfo'',
     PUndef ''cuMemAlloc'',
     PUndef ''cuMemAllocPitch'',
     PUndef ''cuMemFree'',
     PUndef ''cuMemGetAddressRange'',
     PUndef ''cuMemAllocHost'',
     PUndef ''cuMemHostGetDevicePointer'',
     PUndef ''cuMemcpyHtoD'',
     PUndef ''cuMemcpyDtoH'',
     PUndef ''cuMemcpyDtoD'',
     PUndef ''cuMemcpyDtoA'',
     PUndef ''cuMemcpyAtoD'',
     PUndef ''cuMemcpyHtoA'',
     PUndef ''cuMemcpyAtoH'',
     PUndef ''cuMemcpyAtoA'',
     PUndef ''cuMemcpyHtoAAsync'',
     PUndef ''cuMemcpyAtoHAsync'',
     Comment ''#undef cuMemcpy2D'',
     PUndef ''cuMemcpy2DUnaligned'',
     PUndef ''cuMemcpy3D'',
     PUndef ''cuMemcpyHtoDAsync'',
     PUndef ''cuMemcpyDtoHAsync'',
     PUndef ''cuMemcpyDtoDAsync'',
     Comment ''#undef cuMemcpy2DAsync'',
     PUndef ''cuMemcpy3DAsync'',
     PUndef ''cuMemsetD8'',
     PUndef ''cuMemsetD16'',
     PUndef ''cuMemsetD32'',
     PUndef ''cuMemsetD2D8'',
     PUndef ''cuMemsetD2D16'',
     PUndef ''cuMemsetD2D32'',
     PUndef ''cuArrayCreate'',
     PUndef ''cuArrayGetDescriptor'',
     PUndef ''cuArray3DCreate'',
     PUndef ''cuArray3DGetDescriptor'',
     PUndef ''cuTexRefSetAddress'',
     Comment ''#undef cuTexRefSetAddress2D'',
     PUndef ''cuTexRefGetAddress'',
     PUndef ''cuGraphicsResourceGetMappedPointer'',
     Decl (proto CUresult CUDAAPI ''cuDeviceTotalMem'' [(TPtr t_size, ''bytes''), (CUdevice, ''dev'')]),
     Decl (proto CUresult CUDAAPI ''cuCtxCreate'' [(TPtr CUcontext, ''pctx''), (t_uint, ''flags''), (CUdevice, ''dev'')]),
     Decl (proto CUresult CUDAAPI ''cuModuleGetGlobal''
       [(TPtr CUdeviceptr, ''dptr''), (TPtr t_size, ''bytes''), (CUmodule, ''hmod''), (TPtr (TConst t_char), ''name'')]),
     Decl (proto CUresult CUDAAPI ''cuMemGetInfo'' [(TPtr t_size, ''free''), (TPtr t_size, ''total'')]),
     Decl (proto CUresult CUDAAPI ''cuMemAlloc'' [(TPtr CUdeviceptr, ''dptr''), (t_size, ''bytesize'')]),
     Comment ''CUresult CUDAAPI cuMemAllocPitch(CUdeviceptr *dptr, unsigned int *pPitch, unsigned int WidthInBytes, unsigned int Height, unsigned int ElementSizeBytes);'',
     Decl (proto CUresult CUDAAPI ''cuMemFree'' [(CUdeviceptr, ''dptr'')]),
     Decl (proto CUresult CUDAAPI ''cuMemGetAddressRange''
       [(TPtr CUdeviceptr, ''pbase''), (TPtr t_size, ''psize''), (CUdeviceptr, ''dptr'')]),
     Comment ''CUresult CUDAAPI cuMemAllocHost(void **pp, unsigned int bytesize);'',
     Decl (proto CUresult CUDAAPI ''cuMemHostGetDevicePointer''
       [(TPtr CUdeviceptr, ''pdptr''), (TPtr t_void, ''p''), (t_uint, ''Flags'')]),
     Decl (proto CUresult CUDAAPI ''cuMemcpyHtoD''
       [(CUdeviceptr, ''dstDevice''), (TPtr (TConst t_void), ''srcHost''), (t_size, ''ByteCount'')]),
     Decl (proto CUresult CUDAAPI ''cuMemcpyDtoH''
       [(TPtr t_void, ''dstHost''), (CUdeviceptr, ''srcDevice''), (t_size, ''ByteCount'')]),
     Decl (proto CUresult CUDAAPI ''cuMemcpyDtoD''
       [(CUdeviceptr, ''dstDevice''), (CUdeviceptr, ''srcDevice''), (t_size, ''ByteCount'')]),
     Comment ''CUresult CUDAAPI cuMemcpyDtoA(CUarray dstArray, unsigned int dstOffset, CUdeviceptr srcDevice, unsigned int ByteCount);'',
     Comment ''CUresult CUDAAPI cuMemcpyAtoD(CUdeviceptr dstDevice, CUarray srcArray, unsigned int srcOffset, unsigned int ByteCount);'',
     Comment ''CUresult CUDAAPI cuMemcpyHtoA(CUarray dstArray, unsigned int dstOffset, const void *srcHost, unsigned int ByteCount);'',
     Comment ''CUresult CUDAAPI cuMemcpyAtoH(void *dstHost, CUarray srcArray, unsigned int srcOffset, unsigned int ByteCount);'',
     Comment ''CUresult CUDAAPI cuMemcpyAtoA(CUarray dstArray, unsigned int dstOffset, CUarray srcArray, unsigned int srcOffset, unsigned int ByteCount);'',
     Comment ''CUresult CUDAAPI cuMemcpyHtoAAsync(CUarray dstArray, unsigned int dstOffset, const void *srcHost, unsigned int ByteCount, CUstream hStream);'',
     Comment ''CUresult CUDAAPI cuMemcpyAtoHAsync(void *dstHost, CUarray srcArray, unsigned int srcOffset, unsigned int ByteCount, CUstream hStream);'',
     Comment ''CUresult CUDAAPI cuMemcpy2D(const CUDA_MEMCPY2D *pCopy);'',
     Comment ''CUresult CUDAAPI cuMemcpy2DUnaligned(const CUDA_MEMCPY2D *pCopy);'',
     Comment ''CUresult CUDAAPI cuMemcpy3D(const CUDA_MEMCPY3D *pCopy);'',
     Decl (proto CUresult CUDAAPI ''cuMemcpyHtoDAsync''
       [(CUdeviceptr, ''dstDevice''), (TPtr (TConst t_void), ''srcHost''), (t_size, ''ByteCount''), (CUstream, ''hStream'')]),
     Decl (proto CUresult CUDAAPI ''cuMemcpyDtoHAsync''
       [(TPtr t_void, ''dstHost''), (CUdeviceptr, ''srcDevice''), (t_size, ''ByteCount''), (CUstream, ''hStream'')]),
     Decl (proto CUresult CUDAAPI ''cuMemcpyDtoDAsync''
       [(CUdeviceptr, ''dstDevice''), (CUdeviceptr, ''srcDevice''), (t_size, ''ByteCount''), (CUstream, ''hStream'')]),
     Comment ''CUresult CUDAAPI cuMemcpy2DAsync(const CUDA_MEMCPY2D *pCopy, CUstream hStream);'',
     Comment ''CUresult CUDAAPI cuMemcpy3DAsync(const CUDA_MEMCPY3D *pCopy, CUstream hStream);'',
     Decl (proto CUresult CUDAAPI ''cuMemsetD8'' [(CUdeviceptr, ''dstDevice''), (t_uchar, ''uc''), (t_size, ''N'')]),
     Decl (proto CUresult CUDAAPI ''cuMemsetD16'' [(CUdeviceptr, ''dstDevice''), (t_ushort, ''us''), (t_size, ''N'')]),
     Decl (proto CUresult CUDAAPI ''cuMemsetD32'' [(CUdeviceptr, ''dstDevice''), (t_uint, ''ui''), (t_size, ''N'')]),
     Comment ''CUresult CUDAAPI cuMemsetD2D8(CUdeviceptr dstDevice, unsigned int dstPitch, unsigned char uc, unsigned int Width, unsigned int Height);'',
     Comment ''CUresult CUDAAPI cuMemsetD2D16(CUdeviceptr dstDevice, unsigned int dstPitch, unsigned short us, unsigned int Width, unsigned int Height);'',
     Comment ''CUresult CUDAAPI cuMemsetD2D32(CUdeviceptr dstDevice, unsigned int dstPitch, unsigned int ui, unsigned int Width, unsigned int Height);'',
     Comment ''CUresult CUDAAPI cuArrayCreate(CUarray *pHandle, const CUDA_ARRAY_DESCRIPTOR *pAllocateArray);'',
     Comment ''CUresult CUDAAPI cuArrayGetDescriptor(CUDA_ARRAY_DESCRIPTOR *pArrayDescriptor, CUarray hArray);'',
     Comment ''CUresult CUDAAPI cuArray3DCreate(CUarray *pHandle, const CUDA_ARRAY3D_DESCRIPTOR *pAllocateArray);'',
     Comment ''CUresult CUDAAPI cuArray3DGetDescriptor(CUDA_ARRAY3D_DESCRIPTOR *pArrayDescriptor, CUarray hArray);'',
     Decl (proto CUresult CUDAAPI ''cuTexRefSetAddress''
       [(TPtr t_size, ''ByteOffset''), (CUtexref, ''hTexRef''), (CUdeviceptr, ''dptr''), (t_size, ''bytes'')]),
     Comment ''CUresult CUDAAPI cuTexRefSetAddress2D(CUtexref hTexRef, const CUDA_ARRAY_DESCRIPTOR *desc, CUdeviceptr dptr, unsigned int Pitch);'',
     Comment ''CUresult CUDAAPI cuTexRefGetAddress(CUdeviceptr *pdptr, CUtexref hTexRef);'',
     Comment ''CUresult CUDAAPI cuGraphicsResourceGetMappedPointer(CUdeviceptr *pDevPtr, unsigned int *pSize, CUgraphicsResource resource);'' ]"

text \<open>Lines 194 to 204: the body of \<^verbatim>\<open>#if CUDA_VERSION >= 4000\<close>.\<close>

definition body4000 :: "line list" where
  "body4000 =
   [ PUndef ''cuCtxDestroy'',
     PUndef ''cuCtxPopCurrent'',
     PUndef ''cuCtxPushCurrent'',
     PUndef ''cuStreamDestroy'',
     PUndef ''cuEventDestroy'',
     Decl (proto CUresult CUDAAPI ''cuCtxDestroy'' [(CUcontext, ''ctx'')]),
     Decl (proto CUresult CUDAAPI ''cuCtxPopCurrent'' [(TPtr CUcontext, ''pctx'')]),
     Decl (proto CUresult CUDAAPI ''cuCtxPushCurrent'' [(CUcontext, ''ctx'')]),
     Decl (proto CUresult CUDAAPI ''cuStreamDestroy'' [(CUstream, ''hStream'')]),
     Decl (proto CUresult CUDAAPI ''cuEventDestroy'' [(CUevent, ''hEvent'')]) ]"

text \<open>Lines 208 to 216: the body of \<^verbatim>\<open>#if CUDA_VERSION >= 6050\<close>.\<close>

definition body6050 :: "line list" where
  "body6050 =
   [ PUndef ''cuMemHostRegister'',
     PUndef ''cuLinkCreate'',
     PUndef ''cuLinkAddData'',
     PUndef ''cuLinkAddFile'',
     Decl (proto CUresult CUDAAPI ''cuMemHostRegister'' [(TPtr t_void, ''p''), (t_size, ''bytesize''), (t_uint, ''Flags'')]),
     Decl (proto CUresult CUDAAPI ''cuLinkCreate''
       [(t_uint, ''numOptions''), (TPtr CUjit_option, ''options''), (TPtr (TPtr t_void), ''optionValues''),
        (TPtr CUlinkState, ''stateOut'')]),
     Decl (proto CUresult CUDAAPI ''cuLinkAddData''
       [(CUlinkState, ''state''), (CUjitInputType, ''type''), (TPtr t_void, ''data''), (t_size, ''size''),
        (TPtr (TConst t_char), ''name''), (t_uint, ''numOptions''), (TPtr CUjit_option, ''options''),
        (TPtr (TPtr t_void), ''optionValues'')]),
     Decl (proto CUresult CUDAAPI ''cuLinkAddFile''
       [(CUlinkState, ''state''), (CUjitInputType, ''type''), (TPtr (TConst t_char), ''path''),
        (t_uint, ''numOptions''), (TPtr CUjit_option, ''options''), (TPtr (TPtr t_void), ''optionValues'')]) ]"

text \<open>Lines 219 to 221.\<close>

definition extern_close :: "line list" where
  "extern_close = [ PIf (IfDef ''__cplusplus''), ExternCClose, PEndif ]"

text \<open>A block \<^verbatim>\<open>#if CUDA_VERSION >= n\<close> ... \<^verbatim>\<open>#endif\<close>.\<close>

definition gated :: "int \<Rightarrow> line list \<Rightarrow> line list" where
  "gated n body = PIf (IfGE ''CUDA_VERSION'' n) # body @ [PEndif]"

text \<open>The whole file; the last line (222) closes the include guard.\<close>

definition stubs_h :: "line list" where
  "stubs_h =
     guard_open @ header_includes @ extern_open @ wrappers
     @ gated 3020 body3020 @ gated 4000 body4000 @ gated 6050 body6050
     @ extern_close @ [PEndif]"

section \<open>The preprocessor, as far as the header uses it\<close>

text \<open>
  The vendor headers (\<^verbatim>\<open>cuda.h\<close>, \<^verbatim>\<open>cudaProfiler.h\<close>, \<^verbatim>\<open>cuda_runtime_api.h\<close>,
  \<^verbatim>\<open>host_defines.h\<close>) belong to the CUDA SDK, not to the repository, so what they
  contribute is a parameter: \<open>header_macros cfg h\<close> are the macro names that including
  \<open>h\<close> leaves defined (for \<^verbatim>\<open>cuda.h\<close> from version 3.2 on, names such as
  \<^verbatim>\<open>cuMemAlloc\<close>), \<open>header_decls cfg h\<close> are the function declarations that including
  \<open>h\<close> hands to the compiler, under the names the compiler sees (for \<^verbatim>\<open>cuda.h\<close> from
  version 3.2 on, names such as \<^verbatim>\<open>cuMemAlloc_v2\<close>), and \<open>macro_value cfg m\<close> is the
  integer an \<^verbatim>\<open>#if\<close> expression reads for \<open>m\<close> (0 for a name that is not a macro, as C
  prescribes).
  An \<^verbatim>\<open>#include\<close> is taken to add macros and declarations only; the vendor headers are
  not expected to undefine \<^verbatim>\<open>C_STUBS_H\<close> or \<^verbatim>\<open>__cplusplus\<close>.
  \<open>predefined cfg\<close> are the macros defined before the first line of the header is read:
  the compiler's own (\<^verbatim>\<open>__cplusplus\<close>, \<^verbatim>\<open>__MINGW32__\<close>) and whatever the translation
  unit defined earlier.
\<close>

record config =
  predefined :: "string list"
  header_macros :: "string \<Rightarrow> string list"
  header_decls :: "string \<Rightarrow> fundecl list"
  macro_value :: "string \<Rightarrow> int"

definition cuda_version :: "config \<Rightarrow> int" where
  "cuda_version cfg = macro_value cfg ''CUDA_VERSION''"

text \<open>
  A declaration that reached the compiler: the prototype, whether its name was still
  defined as a macro where it stood (then the compiler saw the macro's replacement, not
  the name), and whether it stood inside an open \<^verbatim>\<open>extern "C"\<close> block.
\<close>

record out_decl =
  e_decl :: fundecl
  e_macro :: bool
  e_extern_c :: bool

text \<open>
  The state of the preprocessor: the macros defined so far, the stack of open
  conditional groups (innermost first; \<open>True\<close> for a group whose lines are kept), the
  number of open \<^verbatim>\<open>extern "C"\<close> blocks, the declarations of the header itself passed
  on so far, the names of the functions and objects defined so far, and the declarations
  that the included vendor headers have handed to the compiler so far.
\<close>

record pp_state =
  macros :: "string list"
  conds :: "bool list"
  extern_c :: nat
  emitted :: "out_decl list"
  defined_objs :: "string list"
  vendor_decls :: "fundecl list"

definition init :: "config \<Rightarrow> pp_state" where
  "init cfg = \<lparr>macros = predefined cfg, conds = [], extern_c = 0, emitted = [], defined_objs = [],
              vendor_decls = []\<rparr>"

text \<open>Lines are kept when every open conditional group is a kept one.\<close>

definition active :: "pp_state \<Rightarrow> bool" where
  "active s = list_all (\<lambda>b. b) (conds s)"

fun eval_cond :: "config \<Rightarrow> pp_state \<Rightarrow> cond \<Rightarrow> bool" where
  "eval_cond cfg s (IfDef m) = (m \<in> set (macros s))"
| "eval_cond cfg s (IfNDef m) = (m \<notin> set (macros s))"
| "eval_cond cfg s (IfGE m n) = (n \<le> macro_value cfg m)"

text \<open>The effect of a kept line that is neither a conditional directive nor a closing brace.\<close>

fun exec :: "config \<Rightarrow> line \<Rightarrow> pp_state \<Rightarrow> pp_state" where
  "exec cfg (PDefine m r) s = s\<lparr>macros := m # macros s\<rparr>"
| "exec cfg (PUndef m) s = s\<lparr>macros := removeAll m (macros s)\<rparr>"
| "exec cfg (PInclude h) s =
     s\<lparr>macros := header_macros cfg h @ macros s,
       vendor_decls := vendor_decls s @ header_decls cfg h\<rparr>"
| "exec cfg ExternCOpen s = s\<lparr>extern_c := Suc (extern_c s)\<rparr>"
| "exec cfg (Decl d) s =
     s\<lparr>emitted := emitted s @
        [\<lparr>e_decl = d, e_macro = (fd_name d \<in> set (macros s)), e_extern_c = (0 < extern_c s)\<rparr>]\<rparr>"
| "exec cfg (FunDef d b) s = s\<lparr>defined_objs := defined_objs s @ [fd_name d]\<rparr>"
| "exec cfg (ObjDef t n) s = s\<lparr>defined_objs := defined_objs s @ [n]\<rparr>"
| "exec cfg (Comment c) s = s"
| "exec cfg (PIf c) s = s"
| "exec cfg PEndif s = s"
| "exec cfg ExternCClose s = s"

text \<open>
  One line. A conditional directive is followed in skipped text too, to keep the nesting;
  its condition counts only where the text around it is kept. An \<^verbatim>\<open>#endif\<close> with
  no open group, and a closing brace with no open \<^verbatim>\<open>extern "C"\<close> block, are errors
  (\<open>None\<close>).
\<close>

fun step :: "config \<Rightarrow> line \<Rightarrow> pp_state \<Rightarrow> pp_state option" where
  "step cfg (PIf c) s = Some (s\<lparr>conds := (active s \<and> eval_cond cfg s c) # conds s\<rparr>)"
| "step cfg PEndif s =
     (case conds s of [] \<Rightarrow> None | b # bs \<Rightarrow> Some (s\<lparr>conds := bs\<rparr>))"
| "step cfg ExternCClose s =
     (if active s
      then (if extern_c s = 0 then None else Some (s\<lparr>extern_c := extern_c s - 1\<rparr>))
      else Some s)"
| "step cfg l s = Some (if active s then exec cfg l s else s)"

fun run :: "config \<Rightarrow> line list \<Rightarrow> pp_state \<Rightarrow> pp_state option" where
  "run cfg [] s = Some s"
| "run cfg (l # ls) s = (case step cfg l s of None \<Rightarrow> None | Some s' \<Rightarrow> run cfg ls s')"

text \<open>
  A whole translation unit: at its end every conditional group and every
  \<^verbatim>\<open>extern "C"\<close> block must have been closed.
\<close>

definition preprocess :: "config \<Rightarrow> line list \<Rightarrow> pp_state option" where
  "preprocess cfg f =
     (case run cfg f (init cfg) of
        None \<Rightarrow> None
      | Some s \<Rightarrow> if conds s = [] \<and> extern_c s = 0 then Some s else None)"

definition declarations :: "config \<Rightarrow> line list \<Rightarrow> out_decl list" where
  "declarations cfg f = (case preprocess cfg f of None \<Rightarrow> [] | Some s \<Rightarrow> emitted s)"

definition declared :: "config \<Rightarrow> line list \<Rightarrow> fundecl list" where
  "declared cfg f = map e_decl (declarations cfg f)"

section \<open>Reading the text of the header\<close>

fun decls_of :: "line list \<Rightarrow> fundecl list" where
  "decls_of [] = []"
| "decls_of (Decl d # ls) = d # decls_of ls"
| "decls_of (l # ls) = decls_of ls"

fun undefs_of :: "line list \<Rightarrow> string list" where
  "undefs_of [] = []"
| "undefs_of (PUndef m # ls) = m # undefs_of ls"
| "undefs_of (l # ls) = undefs_of ls"


definition decl_names :: "line list \<Rightarrow> string list" where
  "decl_names ls = map fd_name (decls_of ls)"

definition find_decl :: "string \<Rightarrow> line list \<Rightarrow> fundecl option" where
  "find_decl n ls = find (\<lambda>d. fd_name d = n) (decls_of ls)"

text \<open>The numbers \<open>n\<close> of the lines \<^verbatim>\<open>#if CUDA_VERSION >= n\<close>, in order.\<close>

fun version_thresholds :: "line list \<Rightarrow> int list" where
  "version_thresholds [] = []"
| "version_thresholds (PIf (IfGE m n) # ls) =
     (if m = ''CUDA_VERSION'' then n # version_thresholds ls else version_thresholds ls)"
| "version_thresholds (l # ls) = version_thresholds ls"

text \<open>Every macro an \<^verbatim>\<open>#if\<close> of the header compares with a number.\<close>

fun compared_macros :: "line list \<Rightarrow> string list" where
  "compared_macros [] = []"
| "compared_macros (PIf (IfGE m n) # ls) = m # compared_macros ls"
| "compared_macros (l # ls) = compared_macros ls"

text \<open>
  The version-gated blocks of a file: for each line \<^verbatim>\<open>#if CUDA_VERSION >= n\<close> that is
  not inside such a block already, the number \<open>n\<close> and the lines up to the next
  \<^verbatim>\<open>#endif\<close>. (The header nests nothing inside these blocks.)
\<close>

fun blocks_from :: "(int \<times> line list) option \<Rightarrow> line list \<Rightarrow> (int \<times> line list) list" where
  "blocks_from cur [] = []"
| "blocks_from None (PIf (IfGE m n) # ls) =
     (if m = ''CUDA_VERSION'' then blocks_from (Some (n, [])) ls else blocks_from None ls)"
| "blocks_from None (l # ls) = blocks_from None ls"
| "blocks_from (Some (n, b)) (PEndif # ls) = (n, b) # blocks_from None ls"
| "blocks_from (Some (n, b)) (l # ls) = blocks_from (Some (n, b @ [l])) ls"

definition version_blocks :: "line list \<Rightarrow> (int \<times> line list) list" where
  "version_blocks ls = blocks_from None ls"

text \<open>
  \<open>undef_then_decl ls m\<close>: somewhere in \<open>ls\<close> stands \<^verbatim>\<open>#undef m\<close>, and after it a
  declaration of \<open>m\<close> that is not commented out. (It is enough to look after the first
  \<^verbatim>\<open>#undef m\<close>: what follows a later one follows the first.)
\<close>

fun undef_then_decl :: "line list \<Rightarrow> string \<Rightarrow> bool" where
  "undef_then_decl [] m = False"
| "undef_then_decl (PUndef u # ls) m =
     (if u = m then m \<in> set (decl_names ls) else undef_then_decl ls m)"
| "undef_then_decl (l # ls) m = undef_then_decl ls m"

fun is_definition :: "line \<Rightarrow> bool" where
  "is_definition (FunDef d b) = True"
| "is_definition (ObjDef t n) = True"
| "is_definition l = False"

text \<open>
  A parameter type of a flattened signature: one of the SDK's integer, enumeration and
  handle types, passed by value, or an untyped buffer \<^verbatim>\<open>void*\<close>. A pointer to a
  descriptor structure (\<^verbatim>\<open>const CUDA_MEMCPY2D *\<close>) or a structure passed by value
  (\<^verbatim>\<open>dim3\<close>) is neither.
\<close>

definition scalar_types :: "string list" where
  "scalar_types =
     [''int'', ''unsigned int'', ''size_t'', ''CUdeviceptr'', ''CUarray_format'',
      ''CUtexref'', ''CUstream'', ''cudaStream_t'']"

fun flat_type :: "ctype \<Rightarrow> bool" where
  "flat_type (TName n) = (n \<in> set scalar_types)"
| "flat_type (TPtr (TName n)) = (n = ''void'')"
| "flat_type t = False"

definition flat_params :: "fundecl \<Rightarrow> bool" where
  "flat_params d = list_all (\<lambda>p. flat_type (fst p)) (fd_params d)"

text \<open>
  \<open>async_of d a\<close>: \<open>a\<close> is \<open>d\<close> with \<^verbatim>\<open>Async\<close> appended to the name and one
  parameter \<^verbatim>\<open>CUstream hStream\<close> appended to the list, everything else the same.
\<close>

definition async_of :: "fundecl \<Rightarrow> fundecl \<Rightarrow> bool" where
  "async_of d a =
     (fd_name a = fd_name d @ ''Async'' \<and> fd_ret a = fd_ret d \<and> fd_conv a = fd_conv d
      \<and> fd_params a = fd_params d @ [(CUstream, ''hStream'')])"



section \<open>Shapes of line lists, used to follow the preprocessor through the file\<close>

text \<open>Lines that neither open nor close anything.\<close>

fun plain :: "line \<Rightarrow> bool" where
  "plain (PIf c) = False"
| "plain PEndif = False"
| "plain ExternCClose = False"
| "plain l = True"

text \<open>
  \<open>guarded seen ls\<close>: the list holds only comments, \<^verbatim>\<open>#undef\<close> lines and declarations,
  and every declaration's name is in \<open>seen\<close> or has its \<^verbatim>\<open>#undef\<close> earlier in the list.
\<close>

fun guarded :: "string list \<Rightarrow> line list \<Rightarrow> bool" where
  "guarded seen [] = True"
| "guarded seen (PUndef m # ls) = guarded (m # seen) ls"
| "guarded seen (Decl d # ls) = (fd_name d \<in> set seen \<and> guarded seen ls)"
| "guarded seen (Comment c # ls) = guarded seen ls"
| "guarded seen (l # ls) = False"

text \<open>Only comments and declarations.\<close>

fun only_decls :: "line list \<Rightarrow> bool" where
  "only_decls [] = True"
| "only_decls (Decl d # ls) = only_decls ls"
| "only_decls (Comment c # ls) = only_decls ls"
| "only_decls (l # ls) = False"

text \<open>
  The macros defined after line 16 (the last \<^verbatim>\<open>#include\<close>) when the header is read
  for the first time.
\<close>

definition after_includes :: "config \<Rightarrow> string list" where
  "after_includes cfg =
     header_macros cfg ''cuda_runtime_api.h'' @ header_macros cfg ''cudaProfiler.h''
     @ header_macros cfg ''cuda.h''
     @ (if ''__MINGW32__'' \<in> set (predefined cfg)
        then ''CUDARTAPI'' #
             removeAll ''CUDARTAPI''
               (header_macros cfg ''host_defines.h'' @ ''C_STUBS_H'' # predefined cfg)
        else ''C_STUBS_H'' # predefined cfg)"

text \<open>
  The vendor declarations handed to the compiler by line 16 when the header is read for
  the first time.
\<close>

definition included_decls :: "config \<Rightarrow> fundecl list" where
  "included_decls cfg =
     (if ''__MINGW32__'' \<in> set (predefined cfg) then header_decls cfg ''host_defines.h'' else [])
     @ header_decls cfg ''cuda.h'' @ header_decls cfg ''cudaProfiler.h''
     @ header_decls cfg ''cuda_runtime_api.h''"

text \<open>
  What the compiler is handed on a first inclusion, written out: the wrappers always,
  each gated body when the version reaches its threshold.
\<close>

definition first_inclusion :: "config \<Rightarrow> out_decl list" where
  "first_inclusion cfg =
     map (\<lambda>d. \<lparr>e_decl = d, e_macro = (fd_name d \<in> set (after_includes cfg)),
               e_extern_c = (''__cplusplus'' \<in> set (after_includes cfg))\<rparr>) (decls_of wrappers)
     @ concat (map (\<lambda>(n, body).
          if n \<le> cuda_version cfg
          then map (\<lambda>d. \<lparr>e_decl = d, e_macro = False,
                         e_extern_c = (''__cplusplus'' \<in> set (after_includes cfg))\<rparr>) (decls_of body)
          else [])
        [(3020, body3020), (4000, body4000), (6050, body6050)])"

section \<open>Example configurations\<close>

text \<open>
  A C++ compiler with an SDK whose \<^verbatim>\<open>cuda.h\<close> sets \<^verbatim>\<open>CUDA_VERSION\<close> to \<open>v\<close>,
  defines, as macros, names that alias versioned symbols, and declares the functions
  under the versioned names.
\<close>

definition sdk :: "int \<Rightarrow> config" where
  "sdk v =
     \<lparr>predefined = [''__cplusplus''],
      header_macros = (\<lambda>h. if h = ''cuda.h''
         then [''CUDA_VERSION'', ''cuMemAlloc'', ''cuMemAllocPitch'', ''cuCtxDestroy'', ''cuMemHostRegister'']
         else []),
      header_decls = (\<lambda>h. if h = ''cuda.h''
         then [proto CUresult CUDAAPI ''cuMemAlloc_v2'' [(TPtr CUdeviceptr, ''dptr''), (t_size, ''bytesize'')],
               proto CUresult CUDAAPI ''cuMemAllocPitch_v2''
                 [(TPtr CUdeviceptr, ''dptr''), (TPtr t_size, ''pPitch''), (t_size, ''WidthInBytes''),
                  (t_size, ''Height''), (t_uint, ''ElementSizeBytes'')],
               proto CUresult CUDAAPI ''cuCtxDestroy_v2'' [(CUcontext, ''ctx'')],
               proto CUresult CUDAAPI ''cuMemHostRegister_v2''
                 [(TPtr t_void, ''p''), (t_size, ''bytesize''), (t_uint, ''Flags'')]]
         else []),
      macro_value = (\<lambda>m. if m = ''CUDA_VERSION'' then v else 0)\<rparr>"

text \<open>The state of a translation unit that has read the header before.\<close>

definition seen_before :: pp_state where
  "seen_before = \<lparr>macros = [''C_STUBS_H'', ''CUDA_VERSION''], conds = [], extern_c = 0,
                  emitted = [], defined_objs = [], vendor_decls = []\<rparr>"

section \<open>Following the preprocessor through the header\<close>

lemma run_append:
  "run cfg (xs @ ys) s = (case run cfg xs s of None \<Rightarrow> None | Some s' \<Rightarrow> run cfg ys s')"
  by (induction xs arbitrary: s) (auto split: option.splits)

lemma step_plain: "plain l \<Longrightarrow> step cfg l s = Some (if active s then exec cfg l s else s)"
  by (cases l) auto

lemma exec_conds [simp]: "conds (exec cfg l s) = conds s"
  by (cases l) auto

lemma exec_active [simp]: "active (exec cfg l s) = active s"
  by (simp add: active_def)

lemma exec_conds_update: "exec cfg l (s\<lparr>conds := c\<rparr>) = (exec cfg l s)\<lparr>conds := c\<rparr>"
  by (cases l) auto

lemma fold_exec_conds [simp]: "conds (fold (exec cfg) ls s) = conds s"
  by (induction ls arbitrary: s) auto

lemma fold_exec_conds_update:
  "fold (exec cfg) ls (s\<lparr>conds := c\<rparr>) = (fold (exec cfg) ls s)\<lparr>conds := c\<rparr>"
  by (induction ls arbitrary: s) (auto simp: exec_conds_update)

lemma run_plain:
  "list_all plain ls \<Longrightarrow> run cfg ls s = Some (if active s then fold (exec cfg) ls s else s)"
  by (induction ls arbitrary: s) (auto simp: step_plain)

lemma run_gated:
  assumes "list_all plain body"
  shows "run cfg (gated n body) s =
           Some (if active s \<and> n \<le> cuda_version cfg then fold (exec cfg) body s else s)"
  using assms
  by (auto simp: gated_def run_append run_plain active_def cuda_version_def fold_exec_conds_update)

lemma guarded_plain: "guarded seen ls \<Longrightarrow> list_all plain ls"
  by (induction seen ls rule: guarded.induct) auto

lemma only_decls_plain: "only_decls ls \<Longrightarrow> list_all plain ls"
  by (induction ls rule: only_decls.induct) auto

lemma fold_guarded:
  "guarded seen ls \<Longrightarrow> set seen \<inter> set (macros s) = {} \<Longrightarrow>
     fold (exec cfg) ls s =
       s\<lparr>macros := filter (\<lambda>m. m \<notin> set (undefs_of ls)) (macros s),
         emitted := emitted s @
           map (\<lambda>d. \<lparr>e_decl = d, e_macro = False, e_extern_c = (0 < extern_c s)\<rparr>) (decls_of ls)\<rparr>"
proof (induction seen ls arbitrary: s rule: guarded.induct)
  case (2 seen m ls)
  have "set (m # seen) \<inter> set (macros (s\<lparr>macros := removeAll m (macros s)\<rparr>)) = {}"
    using "2.prems"(2) by auto
  with "2.IH" "2.prems"(1)
  have "fold (exec cfg) ls (s\<lparr>macros := removeAll m (macros s)\<rparr>) =
          s\<lparr>macros := filter (\<lambda>x. x \<notin> set (undefs_of ls)) (removeAll m (macros s)),
            emitted := emitted s @
              map (\<lambda>d. \<lparr>e_decl = d, e_macro = False, e_extern_c = (0 < extern_c s)\<rparr>) (decls_of ls)\<rparr>"
    by simp
  moreover have "filter (\<lambda>x. x \<notin> set (undefs_of ls)) (removeAll m (macros s)) =
                 filter (\<lambda>x. x \<notin> set (undefs_of (PUndef m # ls))) (macros s)"
    by (auto simp: removeAll_filter_not_eq intro!: filter_cong)
  ultimately show ?case by simp
next
  case (3 seen d ls)
  then have "fd_name d \<notin> set (macros s)" by auto
  with 3 show ?case by simp
qed simp_all

lemma fold_only_decls:
  "only_decls ls \<Longrightarrow>
     fold (exec cfg) ls s =
       s\<lparr>emitted := emitted s @
           map (\<lambda>d. \<lparr>e_decl = d, e_macro = (fd_name d \<in> set (macros s)), e_extern_c = (0 < extern_c s)\<rparr>)
             (decls_of ls)\<rparr>"
  by (induction ls arbitrary: s rule: only_decls.induct) auto

lemma run_guard_open:
  "run cfg guard_open s =
     Some (if active s \<and> ''C_STUBS_H'' \<notin> set (macros s)
           then s\<lparr>macros := ''C_STUBS_H'' # macros s, conds := True # conds s\<rparr>
           else s\<lparr>conds := False # conds s\<rparr>)"
  by (simp add: guard_open_def active_def)

lemma run_header_includes_skipped: "\<not> active s \<Longrightarrow> run cfg header_includes s = Some s"
  by (simp add: header_includes_def active_def)

lemma run_header_includes:
  "active s \<Longrightarrow> run cfg header_includes s =
     Some (s\<lparr>macros :=
        header_macros cfg ''cuda_runtime_api.h'' @ header_macros cfg ''cudaProfiler.h''
        @ header_macros cfg ''cuda.h''
        @ (if ''__MINGW32__'' \<in> set (macros s)
           then ''CUDARTAPI'' # removeAll ''CUDARTAPI'' (header_macros cfg ''host_defines.h'' @ macros s)
           else macros s),
        vendor_decls := vendor_decls s
          @ (if ''__MINGW32__'' \<in> set (macros s) then header_decls cfg ''host_defines.h'' else [])
          @ header_decls cfg ''cuda.h'' @ header_decls cfg ''cudaProfiler.h''
          @ header_decls cfg ''cuda_runtime_api.h''\<rparr>)"
  by (simp add: header_includes_def active_def)

lemma run_extern_open:
  "run cfg extern_open s =
     Some (if active s \<and> ''__cplusplus'' \<in> set (macros s) then s\<lparr>extern_c := Suc (extern_c s)\<rparr> else s)"
  by (simp add: extern_open_def active_def)

lemma run_extern_close:
  "run cfg extern_close s =
     (if active s \<and> ''__cplusplus'' \<in> set (macros s)
      then (if extern_c s = 0 then None else Some (s\<lparr>extern_c := extern_c s - 1\<rparr>))
      else Some s)"
  by (simp add: extern_close_def active_def)

lemma run_wrappers:
  "run cfg wrappers s =
     Some (if active s
           then s\<lparr>emitted := emitted s @
                  map (\<lambda>d. \<lparr>e_decl = d, e_macro = (fd_name d \<in> set (macros s)),
                            e_extern_c = (0 < extern_c s)\<rparr>) (decls_of wrappers)\<rparr>
           else s)"
proof -
  have w: "only_decls wrappers" by (simp add: wrappers_def)
  show ?thesis
    using run_plain [OF only_decls_plain [OF w], of cfg s] fold_only_decls [OF w, of cfg s]
    by simp
qed

lemma run_gated_guarded:
  assumes "guarded [] body"
  shows "run cfg (gated n body) s =
     Some (if active s \<and> n \<le> cuda_version cfg
           then s\<lparr>macros := filter (\<lambda>m. m \<notin> set (undefs_of body)) (macros s),
                  emitted := emitted s @
                    map (\<lambda>d. \<lparr>e_decl = d, e_macro = False, e_extern_c = (0 < extern_c s)\<rparr>) (decls_of body)\<rparr>
           else s)"
  using run_gated [OF guarded_plain [OF assms], of cfg n s] fold_guarded [OF assms, of s cfg]
  by simp

lemma guarded_body3020: "guarded [] body3020"
  by (simp add: body3020_def)

lemma guarded_body4000: "guarded [] body4000"
  by (simp add: body4000_def)

lemma guarded_body6050: "guarded [] body6050"
  by (simp add: body6050_def)

lemma run_stubs_h_skipped:
  assumes "\<not> (active s \<and> ''C_STUBS_H'' \<notin> set (macros s))"
  shows "run cfg stubs_h s = Some s"
proof -
  define t where "t = s\<lparr>conds := False # conds s\<rparr>"
  have t: "\<not> active t" "conds t = False # conds s" "t\<lparr>conds := conds s\<rparr> = s"
    by (simp_all add: t_def active_def)
  have "run cfg guard_open s = Some t"
    using assms by (simp add: run_guard_open t_def)
  moreover have "run cfg header_includes t = Some t"
    using t(1) by (rule run_header_includes_skipped)
  moreover have "run cfg extern_open t = Some t"
    using t(1) by (simp add: run_extern_open)
  moreover have "run cfg wrappers t = Some t"
    using t(1) by (simp add: run_wrappers)
  moreover have "run cfg (gated 3020 body3020) t = Some t"
    using t(1) by (simp add: run_gated_guarded [OF guarded_body3020])
  moreover have "run cfg (gated 4000 body4000) t = Some t"
    using t(1) by (simp add: run_gated_guarded [OF guarded_body4000])
  moreover have "run cfg (gated 6050 body6050) t = Some t"
    using t(1) by (simp add: run_gated_guarded [OF guarded_body6050])
  moreover have "run cfg extern_close t = Some t"
    using t(1) by (simp add: run_extern_close)
  moreover have "run cfg [PEndif] t = Some s"
    using t(2,3) by simp
  ultimately show ?thesis
    by (simp add: stubs_h_def run_append)
qed

lemma undefs_keep:
  "''C_STUBS_H'' \<notin> set (undefs_of body3020)" "''__cplusplus'' \<notin> set (undefs_of body3020)"
  "''C_STUBS_H'' \<notin> set (undefs_of body4000)" "''__cplusplus'' \<notin> set (undefs_of body4000)"
  "''C_STUBS_H'' \<notin> set (undefs_of body6050)" "''__cplusplus'' \<notin> set (undefs_of body6050)"
  by (simp_all add: body3020_def body4000_def body6050_def)

lemma gated_step:
  assumes "guarded [] body" and "active s"
  obtains s' where
    "run cfg (gated n body) s = Some s'"
    "conds s' = conds s" "extern_c s' = extern_c s" "defined_objs s' = defined_objs s"
    "emitted s' = emitted s @
       (if n \<le> cuda_version cfg
        then map (\<lambda>d. \<lparr>e_decl = d, e_macro = False, e_extern_c = (0 < extern_c s)\<rparr>) (decls_of body)
        else [])"
    "\<And>m. m \<notin> set (undefs_of body) \<Longrightarrow> m \<in> set (macros s') \<longleftrightarrow> m \<in> set (macros s)"
proof (cases "n \<le> cuda_version cfg")
  case True
  show ?thesis
    by (rule that [of "s\<lparr>macros := filter (\<lambda>m. m \<notin> set (undefs_of body)) (macros s),
             emitted := emitted s @
               map (\<lambda>d. \<lparr>e_decl = d, e_macro = False, e_extern_c = (0 < extern_c s)\<rparr>) (decls_of body)\<rparr>"])
      (use True assms in \<open>simp_all add: run_gated_guarded\<close>)
next
  case False
  show ?thesis
    by (rule that [of s]) (use False assms in \<open>simp_all add: run_gated_guarded\<close>)
qed

lemma gated_vendor_decls:
  assumes "guarded [] body" and "run cfg (gated n body) s = Some s'"
  shows "vendor_decls s' = vendor_decls s"
  using assms(2) by (auto simp: run_gated_guarded [OF assms(1)] split: if_splits)

lemma run_stubs_h_first:
  assumes "''C_STUBS_H'' \<notin> set (predefined cfg)"
  shows "\<exists>s. run cfg stubs_h (init cfg) = Some s \<and> conds s = [] \<and> extern_c s = 0
           \<and> defined_objs s = [] \<and> emitted s = first_inclusion cfg
           \<and> ''C_STUBS_H'' \<in> set (macros s) \<and> vendor_decls s = included_decls cfg"
proof -
  let ?M = "after_includes cfg"
  let ?x = "''__cplusplus'' \<in> set ?M"
  let ?mk = "\<lambda>d. \<lparr>e_decl = d, e_macro = False, e_extern_c = ?x\<rparr>"
  define s1 where "s1 = (init cfg)\<lparr>macros := ''C_STUBS_H'' # predefined cfg, conds := [True]\<rparr>"
  define s2 where "s2 = s1\<lparr>macros := ?M, vendor_decls := included_decls cfg\<rparr>"
  define s3 where "s3 = s2\<lparr>extern_c := (if ?x then 1 else 0)\<rparr>"
  define s4 where "s4 = s3\<lparr>emitted :=
      map (\<lambda>d. \<lparr>e_decl = d, e_macro = (fd_name d \<in> set ?M), e_extern_c = ?x\<rparr>) (decls_of wrappers)\<rparr>"
  have r1: "run cfg guard_open (init cfg) = Some s1"
    using assms by (simp add: run_guard_open s1_def init_def active_def)
  have r2: "run cfg header_includes s1 = Some s2"
    using assms
    by (simp add: run_header_includes s1_def s2_def init_def active_def after_includes_def
        included_decls_def)
  have r3: "run cfg extern_open s2 = Some s3"
    by (simp add: run_extern_open s1_def s2_def s3_def init_def active_def)
  have r4: "run cfg wrappers s3 = Some s4"
    by (simp add: run_wrappers s1_def s2_def s3_def s4_def init_def active_def)
  have a4: "active s4" "conds s4 = [True]" "extern_c s4 = (if ?x then 1 else 0)"
    "defined_objs s4 = []" "''C_STUBS_H'' \<in> set (macros s4)" "''__cplusplus'' \<in> set (macros s4) \<longleftrightarrow> ?x"
    "vendor_decls s4 = included_decls cfg"
    by (simp_all add: s1_def s2_def s3_def s4_def init_def active_def after_includes_def)
  obtain s5 where r5: "run cfg (gated 3020 body3020) s4 = Some s5"
    and a5: "conds s5 = conds s4" "extern_c s5 = extern_c s4" "defined_objs s5 = defined_objs s4"
      "emitted s5 = emitted s4 @ (if 3020 \<le> cuda_version cfg
          then map (\<lambda>d. \<lparr>e_decl = d, e_macro = False, e_extern_c = (0 < extern_c s4)\<rparr>) (decls_of body3020) else [])"
      "\<And>m. m \<notin> set (undefs_of body3020) \<Longrightarrow> m \<in> set (macros s5) \<longleftrightarrow> m \<in> set (macros s4)"
    using gated_step [OF guarded_body3020 a4(1)] by metis
  have act5: "active s5" using a5(1) a4(1) by (simp add: active_def)
  obtain s6 where r6: "run cfg (gated 4000 body4000) s5 = Some s6"
    and a6: "conds s6 = conds s5" "extern_c s6 = extern_c s5" "defined_objs s6 = defined_objs s5"
      "emitted s6 = emitted s5 @ (if 4000 \<le> cuda_version cfg
          then map (\<lambda>d. \<lparr>e_decl = d, e_macro = False, e_extern_c = (0 < extern_c s5)\<rparr>) (decls_of body4000) else [])"
      "\<And>m. m \<notin> set (undefs_of body4000) \<Longrightarrow> m \<in> set (macros s6) \<longleftrightarrow> m \<in> set (macros s5)"
    using gated_step [OF guarded_body4000 act5] by metis
  have act6: "active s6" using a6(1) act5 by (simp add: active_def)
  obtain s7 where r7: "run cfg (gated 6050 body6050) s6 = Some s7"
    and a7: "conds s7 = conds s6" "extern_c s7 = extern_c s6" "defined_objs s7 = defined_objs s6"
      "emitted s7 = emitted s6 @ (if 6050 \<le> cuda_version cfg
          then map (\<lambda>d. \<lparr>e_decl = d, e_macro = False, e_extern_c = (0 < extern_c s6)\<rparr>) (decls_of body6050) else [])"
      "\<And>m. m \<notin> set (undefs_of body6050) \<Longrightarrow> m \<in> set (macros s7) \<longleftrightarrow> m \<in> set (macros s6)"
    using gated_step [OF guarded_body6050 act6] by metis
  have act7: "active s7" using a7(1) act6 by (simp add: active_def)
  have g7: "''C_STUBS_H'' \<in> set (macros s7)"
    using a4(5) a5(5) a6(5) a7(5) undefs_keep by simp
  have x7: "''__cplusplus'' \<in> set (macros s7) \<longleftrightarrow> ?x"
    using a4(6) a5(5) a6(5) a7(5) undefs_keep by simp
  have e7: "extern_c s7 = (if ?x then 1 else 0)" "conds s7 = [True]" "defined_objs s7 = []"
    using a4 a5 a6 a7 by simp_all
  have em7: "emitted s7 = first_inclusion cfg"
    using a4(3) a5(2,4) a6(2,4) a7(4) by (simp add: first_inclusion_def s4_def)
  have v7: "vendor_decls s7 = included_decls cfg"
    using a4(7) gated_vendor_decls [OF guarded_body3020 r5] gated_vendor_decls [OF guarded_body4000 r6]
      gated_vendor_decls [OF guarded_body6050 r7]
    by simp
  define s8 where "s8 = s7\<lparr>extern_c := 0\<rparr>"
  have r8: "run cfg extern_close s7 = Some s8"
    using act7 x7 e7(1) by (cases ?x) (simp_all add: run_extern_close s8_def)
  have r9: "run cfg [PEndif] s8 = Some (s8\<lparr>conds := []\<rparr>)"
    using e7(2) by (simp add: s8_def)
  have "run cfg stubs_h (init cfg) = Some (s8\<lparr>conds := []\<rparr>)"
    using r1 r2 r3 r4 r5 r6 r7 r8 r9 by (simp add: stubs_h_def run_append)
  then show ?thesis
    using g7 e7 em7 v7 by (simp add: s8_def)
qed

lemma preprocess_first:
  assumes "''C_STUBS_H'' \<notin> set (predefined cfg)"
  shows "\<exists>s. preprocess cfg stubs_h = Some s \<and> emitted s = first_inclusion cfg
           \<and> defined_objs s = [] \<and> ''C_STUBS_H'' \<in> set (macros s)
           \<and> run cfg stubs_h (init cfg) = Some s \<and> vendor_decls s = included_decls cfg"
  using run_stubs_h_first [OF assms] by (auto simp: preprocess_def)

lemma preprocess_again:
  assumes "''C_STUBS_H'' \<in> set (predefined cfg)"
  shows "preprocess cfg stubs_h = Some (init cfg)"
proof -
  have "run cfg stubs_h (init cfg) = Some (init cfg)"
    using assms by (intro run_stubs_h_skipped) (simp add: init_def)
  then show ?thesis by (simp add: preprocess_def init_def)
qed

lemma preprocess_ok: "preprocess cfg stubs_h \<noteq> None"
  using preprocess_first [of cfg] preprocess_again [of cfg] by auto

lemma declarations_stubs_h:
  "declarations cfg stubs_h =
     (if ''C_STUBS_H'' \<in> set (predefined cfg) then [] else first_inclusion cfg)"
  using preprocess_first [of cfg] preprocess_again [of cfg]
  by (auto simp: declarations_def init_def)

lemma declared_stubs_h:
  "declared cfg stubs_h =
     (if ''C_STUBS_H'' \<in> set (predefined cfg) then []
      else decls_of wrappers
        @ (if 3020 \<le> cuda_version cfg then decls_of body3020 else [])
        @ (if 4000 \<le> cuda_version cfg then decls_of body4000 else [])
        @ (if 6050 \<le> cuda_version cfg then decls_of body6050 else []))"
  by (simp add: declared_def declarations_stubs_h first_inclusion_def comp_def)

lemma decls_of_append: "decls_of (xs @ ys) = decls_of xs @ decls_of ys"
  by (induction xs rule: decls_of.induct) auto

lemma decls_of_gated: "decls_of (gated n body) = decls_of body"
  by (simp add: gated_def decls_of_append)

lemma decls_of_stubs_h:
  "decls_of stubs_h = decls_of wrappers @ decls_of body3020 @ decls_of body4000 @ decls_of body6050"
  by (simp add: stubs_h_def decls_of_append decls_of_gated guard_open_def header_includes_def
      extern_open_def extern_close_def)

lemma version_blocks_stubs_h:
  "version_blocks stubs_h = [(3020, body3020), (4000, body4000), (6050, body6050)]"
  by (simp add: version_blocks_def stubs_h_def gated_def guard_open_def header_includes_def
      extern_open_def extern_close_def wrappers_def body3020_def body4000_def body6050_def)

lemma distinct_names: "distinct (decl_names stubs_h)"
  by (simp add: decl_names_def decls_of_stubs_h wrappers_def body3020_def body4000_def body6050_def)

lemma names_disjoint:
  "set (decl_names wrappers) \<inter> set (decl_names body3020) = {}"
  "set (decl_names wrappers) \<inter> set (decl_names body4000) = {}"
  "set (decl_names wrappers) \<inter> set (decl_names body6050) = {}"
  "set (decl_names body3020) \<inter> set (decl_names body4000) = {}"
  "set (decl_names body3020) \<inter> set (decl_names body6050) = {}"
  "set (decl_names body4000) \<inter> set (decl_names body6050) = {}"
  using distinct_names by (auto simp: decl_names_def decls_of_stubs_h)

lemma not_in_other:
  "d \<in> set (decls_of xs) \<Longrightarrow> set (decl_names xs) \<inter> set (decl_names ys) = {} \<Longrightarrow>
   d \<notin> set (decls_of ys)"
  by (auto simp: decl_names_def)

lemma not_in_other':
  "d \<in> set (decls_of ys) \<Longrightarrow> set (decl_names xs) \<inter> set (decl_names ys) = {} \<Longrightarrow>
   d \<notin> set (decls_of xs)"
  by (auto simp: decl_names_def)

lemma guarded_undef_then_decl:
  "guarded seen ls \<Longrightarrow> m \<in> set (decl_names ls) \<Longrightarrow> m \<in> set seen \<or> undef_then_decl ls m"
  by (induction seen ls rule: guarded.induct) (auto simp: decl_names_def)





lemma first_inclusion_extern_c:
  "e \<in> set (first_inclusion cfg) \<Longrightarrow> e_extern_c e = (''__cplusplus'' \<in> set (after_includes cfg))"
  by (auto simp: first_inclusion_def split: if_splits)






section \<open>The claims\<close>

text \<open>
  C2. The conditional compilation is gated on \<^verbatim>\<open>CUDA_VERSION\<close> at exactly the thresholds
  3020, 4000 and 6050, and no \<^verbatim>\<open>#if\<close> compares anything else: the file has three
  version-gated blocks, and when the header is read (its include guard not yet defined),
  a declaration of a gated block is among the declarations in effect if and only if
  \<^verbatim>\<open>CUDA_VERSION\<close> is at least the block's threshold.
\<close>

theorem version_gates:
  assumes "''C_STUBS_H'' \<notin> set (predefined cfg)"
  shows "preprocess cfg stubs_h \<noteq> None
    \<and> version_thresholds stubs_h = [3020, 4000, 6050]
    \<and> set (compared_macros stubs_h) = {''CUDA_VERSION''}
    \<and> map fst (version_blocks stubs_h) = [3020, 4000, 6050]
    \<and> (\<forall>(n, body) \<in> set (version_blocks stubs_h). \<forall>d \<in> set (decls_of body).
          d \<in> set (declared cfg stubs_h) \<longleftrightarrow> n \<le> cuda_version cfg)"
proof -
  have t: "version_thresholds stubs_h = [3020, 4000, 6050]"
    by (simp add: stubs_h_def gated_def guard_open_def header_includes_def
      extern_open_def extern_close_def wrappers_def body3020_def body4000_def body6050_def)
  have c: "set (compared_macros stubs_h) = {''CUDA_VERSION''}"
    by (simp add: stubs_h_def gated_def guard_open_def header_includes_def
      extern_open_def extern_close_def wrappers_def body3020_def body4000_def body6050_def)
  have b1: "d \<in> set (declared cfg stubs_h) \<longleftrightarrow> 3020 \<le> cuda_version cfg"
    if "d \<in> set (decls_of body3020)" for d
    using that names_disjoint assms
    by (auto simp: declared_stubs_h dest: not_in_other not_in_other')
  have b2: "d \<in> set (declared cfg stubs_h) \<longleftrightarrow> 4000 \<le> cuda_version cfg"
    if "d \<in> set (decls_of body4000)" for d
    using that names_disjoint assms
    by (auto simp: declared_stubs_h dest: not_in_other not_in_other')
  have b3: "d \<in> set (declared cfg stubs_h) \<longleftrightarrow> 6050 \<le> cuda_version cfg"
    if "d \<in> set (decls_of body6050)" for d
    using that names_disjoint assms
    by (auto simp: declared_stubs_h dest: not_in_other not_in_other')
  show ?thesis
    using t c b1 b2 b3 preprocess_ok [of cfg] by (simp add: version_blocks_stubs_h)
qed

text \<open>
  C2, at a C++ compiler with an SDK of version 4000: the blocks of 3020 and 4000 are in
  effect, the block of 6050 is not.
\<close>

theorem version_gates_witness:
  "''C_STUBS_H'' \<notin> set (predefined (sdk 4000))
   \<and> preprocess (sdk 4000) stubs_h \<noteq> None
   \<and> proto CUresult CUDAAPI ''cuMemAlloc'' [(TPtr CUdeviceptr, ''dptr''), (t_size, ''bytesize'')]
        \<in> set (declared (sdk 4000) stubs_h)
   \<and> proto CUresult CUDAAPI ''cuCtxDestroy'' [(CUcontext, ''ctx'')] \<in> set (declared (sdk 4000) stubs_h)
   \<and> proto CUresult CUDAAPI ''cuMemHostRegister'' [(TPtr t_void, ''p''), (t_size, ''bytesize''), (t_uint, ''Flags'')]
        \<notin> set (declared (sdk 4000) stubs_h)"
proof -
  have h: "''C_STUBS_H'' \<notin> set (predefined (sdk 4000))"
    by (simp add: sdk_def)
  have v: "cuda_version (sdk 4000) = 4000"
    by (simp add: sdk_def cuda_version_def)
  have m: "proto CUresult CUDAAPI ''cuMemAlloc'' [(TPtr CUdeviceptr, ''dptr''), (t_size, ''bytesize'')]
        \<in> set (decls_of body3020)"
    "proto CUresult CUDAAPI ''cuCtxDestroy'' [(CUcontext, ''ctx'')] \<in> set (decls_of body4000)"
    "proto CUresult CUDAAPI ''cuMemHostRegister'' [(TPtr t_void, ''p''), (t_size, ''bytesize''), (t_uint, ''Flags'')]
        \<in> set (decls_of body6050)"
    by code_simp+
  show ?thesis
    using h m version_gates [OF h]
    by (simp add: version_blocks_stubs_h v)
qed

text \<open>
  C3, as the claim states it, fails: \<^verbatim>\<open>cuMemAllocPitch\<close> is undefined on line 111 and its
  declaration on line 154 is commented out, so not every symbol of an \<^verbatim>\<open>#undef\<close> in a
  gated block is declared again in that block.
\<close>

theorem undef_without_declaration:
  "\<not> (\<forall>(n, body) \<in> set (version_blocks stubs_h). \<forall>m \<in> set (undefs_of body). undef_then_decl body m)"
proof
  assume a: "\<forall>(n, body) \<in> set (version_blocks stubs_h). \<forall>m \<in> set (undefs_of body). undef_then_decl body m"
  have "''cuMemAllocPitch'' \<in> set (undefs_of body3020)"
    by code_simp
  with a have "undef_then_decl body3020 ''cuMemAllocPitch''"
    by (simp add: version_blocks_stubs_h)
  moreover have "\<not> undef_then_decl body3020 ''cuMemAllocPitch''"
    by code_simp
  ultimately show False by simp
qed

text \<open>
  C3, amended. In every version-gated block each declared symbol has its \<^verbatim>\<open>#undef\<close>
  earlier in the same block; the symbols of the block's \<^verbatim>\<open>#undef\<close> lines that are
  declared again after it are exactly the block's declared names, in order; and in the
  blocks of 4000 and 6050 that is every symbol of an \<^verbatim>\<open>#undef\<close>. The block of 3020
  has 39 \<^verbatim>\<open>#undef\<close> lines, declares again the 18 symbols listed, and leaves the 21
  symbols listed last undefined only; the blocks of 4000 and 6050 have 5 and 4
  \<^verbatim>\<open>#undef\<close> lines and declare all of their symbols again.
\<close>

theorem redeclared_after_undef:
  "(\<forall>(n, body) \<in> set (version_blocks stubs_h). \<forall>m \<in> set (decl_names body). undef_then_decl body m)
   \<and> (\<forall>(n, body) \<in> set (version_blocks stubs_h).
         filter (undef_then_decl body) (undefs_of body) = decl_names body)
   \<and> (\<forall>(n, body) \<in> set (version_blocks stubs_h). 4000 \<le> n \<longrightarrow>
         (\<forall>m \<in> set (undefs_of body). undef_then_decl body m))
   \<and> map (\<lambda>(n, body). (n, length (undefs_of body), decl_names body)) (version_blocks stubs_h) =
       [(3020, 39,
         [''cuDeviceTotalMem'', ''cuCtxCreate'', ''cuModuleGetGlobal'', ''cuMemGetInfo'',
          ''cuMemAlloc'', ''cuMemFree'', ''cuMemGetAddressRange'',
          ''cuMemHostGetDevicePointer'', ''cuMemcpyHtoD'', ''cuMemcpyDtoH'',
          ''cuMemcpyDtoD'', ''cuMemcpyHtoDAsync'', ''cuMemcpyDtoHAsync'',
          ''cuMemcpyDtoDAsync'', ''cuMemsetD8'', ''cuMemsetD16'', ''cuMemsetD32'',
          ''cuTexRefSetAddress'']),
        (4000, 5,
         [''cuCtxDestroy'', ''cuCtxPopCurrent'', ''cuCtxPushCurrent'',
          ''cuStreamDestroy'', ''cuEventDestroy'']),
        (6050, 4,
         [''cuMemHostRegister'', ''cuLinkCreate'', ''cuLinkAddData'', ''cuLinkAddFile''])]
   \<and> map (\<lambda>(n, body). filter (Not \<circ> undef_then_decl body) (undefs_of body))
         (version_blocks stubs_h) =
       [[''cuMemAllocPitch'', ''cuMemAllocHost'', ''cuMemcpyDtoA'', ''cuMemcpyAtoD'',
         ''cuMemcpyHtoA'', ''cuMemcpyAtoH'', ''cuMemcpyAtoA'', ''cuMemcpyHtoAAsync'',
         ''cuMemcpyAtoHAsync'', ''cuMemcpy2DUnaligned'', ''cuMemcpy3D'',
         ''cuMemcpy3DAsync'', ''cuMemsetD2D8'', ''cuMemsetD2D16'', ''cuMemsetD2D32'',
         ''cuArrayCreate'', ''cuArrayGetDescriptor'', ''cuArray3DCreate'',
         ''cuArray3DGetDescriptor'', ''cuTexRefGetAddress'',
         ''cuGraphicsResourceGetMappedPointer''],
        [], []]"
proof -
  have 9: "length (undefs_of body3020) = 39" "length (undefs_of body4000) = 5"
    "length (undefs_of body6050) = 4"
    by code_simp+
  have 10: "decl_names body3020 =
         [''cuDeviceTotalMem'', ''cuCtxCreate'', ''cuModuleGetGlobal'', ''cuMemGetInfo'',
          ''cuMemAlloc'', ''cuMemFree'', ''cuMemGetAddressRange'',
          ''cuMemHostGetDevicePointer'', ''cuMemcpyHtoD'', ''cuMemcpyDtoH'',
          ''cuMemcpyDtoD'', ''cuMemcpyHtoDAsync'', ''cuMemcpyDtoHAsync'',
          ''cuMemcpyDtoDAsync'', ''cuMemsetD8'', ''cuMemsetD16'', ''cuMemsetD32'',
          ''cuTexRefSetAddress'']"
    by code_simp
  have 11: "decl_names body4000 =
         [''cuCtxDestroy'', ''cuCtxPopCurrent'', ''cuCtxPushCurrent'',
          ''cuStreamDestroy'', ''cuEventDestroy'']"
    by code_simp
  have 12: "decl_names body6050 =
         [''cuMemHostRegister'', ''cuLinkCreate'', ''cuLinkAddData'', ''cuLinkAddFile'']"
    by code_simp
  have 13: "filter (Not \<circ> undef_then_decl body3020) (undefs_of body3020) =
         [''cuMemAllocPitch'', ''cuMemAllocHost'', ''cuMemcpyDtoA'', ''cuMemcpyAtoD'',
          ''cuMemcpyHtoA'', ''cuMemcpyAtoH'', ''cuMemcpyAtoA'', ''cuMemcpyHtoAAsync'',
          ''cuMemcpyAtoHAsync'', ''cuMemcpy2DUnaligned'', ''cuMemcpy3D'',
          ''cuMemcpy3DAsync'', ''cuMemsetD2D8'', ''cuMemsetD2D16'', ''cuMemsetD2D32'',
          ''cuArrayCreate'', ''cuArrayGetDescriptor'', ''cuArray3DCreate'',
          ''cuArray3DGetDescriptor'', ''cuTexRefGetAddress'',
          ''cuGraphicsResourceGetMappedPointer'']"
    by code_simp
  have 14: "filter (Not \<circ> undef_then_decl body4000) (undefs_of body4000) = []"
    "filter (Not \<circ> undef_then_decl body6050) (undefs_of body6050) = []"
    by code_simp+
  have 1: "\<forall>m \<in> set (decl_names body3020). undef_then_decl body3020 m"
    using guarded_undef_then_decl [OF guarded_body3020] by simp
  have 2: "\<forall>m \<in> set (decl_names body4000). undef_then_decl body4000 m"
    using guarded_undef_then_decl [OF guarded_body4000] by simp
  have 3: "\<forall>m \<in> set (decl_names body6050). undef_then_decl body6050 m"
    using guarded_undef_then_decl [OF guarded_body6050] by simp
  have 4: "filter (undef_then_decl body3020) (undefs_of body3020) = decl_names body3020"
    by code_simp
  have 5: "filter (undef_then_decl body4000) (undefs_of body4000) = decl_names body4000"
    by code_simp
  have 6: "filter (undef_then_decl body6050) (undefs_of body6050) = decl_names body6050"
    by code_simp
  have 7: "\<forall>m \<in> set (undefs_of body4000). undef_then_decl body4000 m"
    by code_simp
  have 8: "\<forall>m \<in> set (undefs_of body6050). undef_then_decl body6050 m"
    by code_simp
  have a: "(\<forall>(n, body) \<in> set (version_blocks stubs_h). \<forall>m \<in> set (decl_names body). undef_then_decl body m)
   \<and> (\<forall>(n, body) \<in> set (version_blocks stubs_h).
         filter (undef_then_decl body) (undefs_of body) = decl_names body)
   \<and> (\<forall>(n, body) \<in> set (version_blocks stubs_h). 4000 \<le> n \<longrightarrow>
         (\<forall>m \<in> set (undefs_of body). undef_then_decl body m))"
    using 1 2 3 4 5 6 7 8 by (simp add: version_blocks_stubs_h)
  have b: "map (\<lambda>(n, body). (n, length (undefs_of body), decl_names body)) (version_blocks stubs_h) =
       [(3020, 39, decl_names body3020), (4000, 5, decl_names body4000), (6050, 4, decl_names body6050)]"
    using 9 by (simp add: version_blocks_stubs_h)
  have c: "map (\<lambda>(n, body). filter (Not \<circ> undef_then_decl body) (undefs_of body))
         (version_blocks stubs_h) =
       [filter (Not \<circ> undef_then_decl body3020) (undefs_of body3020), [], []]"
    using 14 by (simp add: version_blocks_stubs_h)
  show ?thesis
    using a b c unfolding 10 11 12 13 by blast
qed

text \<open>C3, amended, at three symbols and at the block of 6050.\<close>

theorem redeclared_after_undef_witness:
  "undef_then_decl body3020 ''cuMemAlloc'' \<and> undef_then_decl body4000 ''cuEventDestroy''
   \<and> undef_then_decl body6050 ''cuLinkAddFile''
   \<and> filter (undef_then_decl body6050) (undefs_of body6050)
        = [''cuMemHostRegister'', ''cuLinkCreate'', ''cuLinkAddData'', ''cuLinkAddFile'']
   \<and> length (undefs_of body3020) = 39 \<and> length (decl_names body3020) = 18
   \<and> length (filter (Not \<circ> undef_then_decl body3020) (undefs_of body3020)) = 21"
proof -
  have "''cuMemAlloc'' \<in> set (decl_names body3020)" "''cuEventDestroy'' \<in> set (decl_names body4000)"
    "''cuLinkAddFile'' \<in> set (decl_names body6050)"
    "decl_names body6050 = [''cuMemHostRegister'', ''cuLinkCreate'', ''cuLinkAddData'', ''cuLinkAddFile'']"
    by code_simp+
  then show ?thesis
    using redeclared_after_undef by (simp add: version_blocks_stubs_h)
qed

text \<open>
  C4. The simplified wrappers have flattened parameter lists:
  \<^verbatim>\<open>cudaConfigureCallSimple\<close> takes five \<^verbatim>\<open>int\<close> grid and block dimensions, a
  \<^verbatim>\<open>size_t\<close> shared-memory size and a stream; \<^verbatim>\<open>cuTexRefSetAddress2DSimple\<close> and the six
  \<^verbatim>\<open>cuMemcpy2D\<close> wrappers take every parameter as a scalar, a handle or an untyped buffer,
  none as a pointer to a descriptor structure. The last part of the statement gives the
  eight declarations in full: the 2D copies take destination, pitch, x offset and y
  offset, then the same four for the source, then width in bytes and height (and the
  stream, for the asynchronous ones), each as an argument of its own.
\<close>

theorem flattened_wrappers:
  "find_decl ''cudaConfigureCallSimple'' stubs_h =
     Some (proto cudaError_t None ''cudaConfigureCallSimple''
       [(t_int, ''gridX''), (t_int, ''gridY''), (t_int, ''blockX''), (t_int, ''blockY''),
        (t_int, ''blockZ''), (t_size, ''sharedMem''), (cudaStream_t, ''stream'')])
   \<and> map_option (map fst \<circ> fd_params) (find_decl ''cuTexRefSetAddress2DSimple'' stubs_h) =
       Some [CUtexref, CUarray_format, t_uint, CUdeviceptr, t_size, t_size, t_size]
   \<and> map_option (map fst \<circ> fd_params) (find_decl ''cuMemcpy2DHtoD'' stubs_h) =
       Some [CUdeviceptr, t_uint, t_uint, t_uint, TPtr t_void, t_uint, t_uint, t_uint, t_uint, t_uint]
   \<and> list_all (\<lambda>n. case find_decl n stubs_h of None \<Rightarrow> False | Some d \<Rightarrow> flat_params d)
       [''cudaConfigureCallSimple'', ''cuTexRefSetAddress2DSimple'',
        ''cuMemcpy2DHtoD'', ''cuMemcpy2DHtoDAsync'', ''cuMemcpy2DDtoH'', ''cuMemcpy2DDtoHAsync'',
        ''cuMemcpy2DDtoD'', ''cuMemcpy2DDtoDAsync'']
   \<and> map (\<lambda>n. find_decl n stubs_h)
       [''cudaConfigureCallSimple'', ''cuTexRefSetAddress2DSimple'',
        ''cuMemcpy2DHtoD'', ''cuMemcpy2DHtoDAsync'', ''cuMemcpy2DDtoH'', ''cuMemcpy2DDtoHAsync'',
        ''cuMemcpy2DDtoD'', ''cuMemcpy2DDtoDAsync''] =
       [
        Some (proto cudaError_t None ''cudaConfigureCallSimple''
           [(t_int, ''gridX''), (t_int, ''gridY''), (t_int, ''blockX''),
            (t_int, ''blockY''), (t_int, ''blockZ''), (t_size, ''sharedMem''),
            (cudaStream_t, ''stream'')]),
        Some (proto CUresult None ''cuTexRefSetAddress2DSimple''
           [(CUtexref, ''tex''), (CUarray_format, ''format''), (t_uint, ''numChannels''),
            (CUdeviceptr, ''dptr''), (t_size, ''width''), (t_size, ''height''),
            (t_size, ''pitch'')]),
        Some (proto CUresult None ''cuMemcpy2DHtoD''
           [(CUdeviceptr, ''dstDevice''), (t_uint, ''dstPitch''),
            (t_uint, ''dstXInBytes''), (t_uint, ''dstY''), (TPtr t_void, ''srcHost''),
            (t_uint, ''srcPitch''), (t_uint, ''srcXInBytes''), (t_uint, ''srcY''),
            (t_uint, ''widthInBytes''), (t_uint, ''height'')]),
        Some (proto CUresult None ''cuMemcpy2DHtoDAsync''
           [(CUdeviceptr, ''dstDevice''), (t_uint, ''dstPitch''),
            (t_uint, ''dstXInBytes''), (t_uint, ''dstY''), (TPtr t_void, ''srcHost''),
            (t_uint, ''srcPitch''), (t_uint, ''srcXInBytes''), (t_uint, ''srcY''),
            (t_uint, ''widthInBytes''), (t_uint, ''height''), (CUstream, ''hStream'')]),
        Some (proto CUresult None ''cuMemcpy2DDtoH''
           [(TPtr t_void, ''dstHost''), (t_uint, ''dstPitch''),
            (t_uint, ''dstXInBytes''), (t_uint, ''dstY''), (CUdeviceptr, ''srcDevice''),
            (t_uint, ''srcPitch''), (t_uint, ''srcXInBytes''), (t_uint, ''srcY''),
            (t_uint, ''widthInBytes''), (t_uint, ''height'')]),
        Some (proto CUresult None ''cuMemcpy2DDtoHAsync''
           [(TPtr t_void, ''dstHost''), (t_uint, ''dstPitch''),
            (t_uint, ''dstXInBytes''), (t_uint, ''dstY''), (CUdeviceptr, ''srcDevice''),
            (t_uint, ''srcPitch''), (t_uint, ''srcXInBytes''), (t_uint, ''srcY''),
            (t_uint, ''widthInBytes''), (t_uint, ''height''), (CUstream, ''hStream'')]),
        Some (proto CUresult None ''cuMemcpy2DDtoD''
           [(CUdeviceptr, ''dstDevice''), (t_uint, ''dstPitch''),
            (t_uint, ''dstXInBytes''), (t_uint, ''dstY''), (CUdeviceptr, ''srcDevice''),
            (t_uint, ''srcPitch''), (t_uint, ''srcXInBytes''), (t_uint, ''srcY''),
            (t_uint, ''widthInBytes''), (t_uint, ''height'')]),
        Some (proto CUresult None ''cuMemcpy2DDtoDAsync''
           [(CUdeviceptr, ''dstDevice''), (t_uint, ''dstPitch''),
            (t_uint, ''dstXInBytes''), (t_uint, ''dstY''), (CUdeviceptr, ''srcDevice''),
            (t_uint, ''srcPitch''), (t_uint, ''srcXInBytes''), (t_uint, ''srcY''),
            (t_uint, ''widthInBytes''), (t_uint, ''height''), (CUstream, ''hStream'')]) ]"
  by code_simp

text \<open>
  C5. Every function declared in the file returns \<^verbatim>\<open>cudaError_t\<close> or \<^verbatim>\<open>CUresult\<close>, and
  whatever the configuration, the declarations in effect are among those of the file.
\<close>

theorem returns_status_code:
  "decls_of stubs_h \<noteq> []
   \<and> list_all (\<lambda>d. fd_ret d = cudaError_t \<or> fd_ret d = CUresult) (decls_of stubs_h)
   \<and> set (declared cfg stubs_h) \<subseteq> set (decls_of stubs_h)"
proof -
  have "decls_of stubs_h \<noteq> []"
    by code_simp
  moreover have "list_all (\<lambda>d. fd_ret d = cudaError_t \<or> fd_ret d = CUresult) (decls_of stubs_h)"
    by code_simp
  moreover have "set (declared cfg stubs_h) \<subseteq> set (decls_of stubs_h)"
    by (auto simp: declared_stubs_h decls_of_stubs_h)
  ultimately show ?thesis by simp
qed



text \<open>
  C7. The file holds no function definition and no object definition, so reading it
  defines nothing; and when it is compiled as C++ (\<^verbatim>\<open>__cplusplus\<close> predefined), every
  declaration it passes on stands inside an open \<^verbatim>\<open>extern "C"\<close> block.
\<close>

theorem prototypes_only:
  "list_all (\<lambda>l. \<not> is_definition l) stubs_h
   \<and> map_option defined_objs (preprocess cfg stubs_h) = Some []
   \<and> (''__cplusplus'' \<in> set (predefined cfg) \<longrightarrow>
        (\<forall>e \<in> set (declarations cfg stubs_h). e_extern_c e))"
proof -
  have 1: "list_all (\<lambda>l. \<not> is_definition l) stubs_h"
    by code_simp
  have 2: "map_option defined_objs (preprocess cfg stubs_h) = Some []"
    using preprocess_first [of cfg] preprocess_again [of cfg]
    by (cases "''C_STUBS_H'' \<in> set (predefined cfg)") (auto simp: init_def)
  have "''__cplusplus'' \<in> set (after_includes cfg)" if "''__cplusplus'' \<in> set (predefined cfg)"
    using that by (simp add: after_includes_def)
  then have 3: "''__cplusplus'' \<in> set (predefined cfg) \<longrightarrow>
        (\<forall>e \<in> set (declarations cfg stubs_h). e_extern_c e)"
    by (auto simp: declarations_stubs_h dest: first_inclusion_extern_c)
  show ?thesis
    using 1 2 3 by simp
qed

text \<open>C7, at a C++ compiler with an SDK of version 6050.\<close>

theorem prototypes_only_witness:
  "''__cplusplus'' \<in> set (predefined (sdk 6050))
   \<and> map_option defined_objs (preprocess (sdk 6050) stubs_h) = Some []
   \<and> declarations (sdk 6050) stubs_h \<noteq> []
   \<and> list_all e_extern_c (declarations (sdk 6050) stubs_h)"
proof -
  have h: "''__cplusplus'' \<in> set (predefined (sdk 6050))"
    by (simp add: sdk_def)
  have n: "declarations (sdk 6050) stubs_h \<noteq> []"
    by (simp add: declarations_stubs_h sdk_def first_inclusion_def wrappers_def)
  show ?thesis
    using h n prototypes_only [of "sdk 6050"] by (simp add: list_all_iff)
qed

text \<open>
  C8. The include guard makes the header idempotent: reading it a second time in the same
  translation unit gives the same result as reading it once, and in any state in which
  \<^verbatim>\<open>C_STUBS_H\<close> is defined, reading the header changes nothing (the guard spans the
  whole file).
\<close>

theorem include_guard_idempotent:
  "preprocess cfg stubs_h \<noteq> None
   \<and> preprocess cfg (stubs_h @ stubs_h) = preprocess cfg stubs_h
   \<and> (''C_STUBS_H'' \<in> set (macros s) \<longrightarrow> run cfg stubs_h s = Some s)"
proof -
  have skip: "run cfg stubs_h t = Some t" if "''C_STUBS_H'' \<in> set (macros t)" for t
    using that by (intro run_stubs_h_skipped) simp
  have "preprocess cfg (stubs_h @ stubs_h) = preprocess cfg stubs_h"
  proof (cases "''C_STUBS_H'' \<in> set (predefined cfg)")
    case True
    then have "run cfg stubs_h (init cfg) = Some (init cfg)"
      by (intro skip) (simp add: init_def)
    then show ?thesis
      by (simp add: preprocess_def run_append)
  next
    case False
    from preprocess_first [OF False] obtain t where
      t: "run cfg stubs_h (init cfg) = Some t" "''C_STUBS_H'' \<in> set (macros t)"
      by blast
    then show ?thesis
      using skip [OF t(2)] by (simp add: preprocess_def run_append)
  qed
  then show ?thesis
    using preprocess_ok [of cfg] skip [of s] by simp
qed

text \<open>C8, at a translation unit that has read the header before.\<close>

theorem include_guard_idempotent_witness:
  "''C_STUBS_H'' \<in> set (macros seen_before)
   \<and> run (sdk 6050) stubs_h seen_before = Some seen_before
   \<and> preprocess (sdk 6050) (stubs_h @ stubs_h) = preprocess (sdk 6050) stubs_h
   \<and> preprocess (sdk 6050) stubs_h \<noteq> None"
proof -
  have h: "''C_STUBS_H'' \<in> set (macros seen_before)"
    by (simp add: seen_before_def)
  show ?thesis
    using h include_guard_idempotent [of "sdk 6050" seen_before] by simp
qed

text \<open>
  C9. The declarations in effect grow with \<^verbatim>\<open>CUDA_VERSION\<close>: of two configurations with
  the same predefined macros, the one with the greater version declares everything the
  other declares. The eight wrappers are declared at every version (when the header is
  read at all, its include guard not yet defined), and the gates are the three lower
  bounds 3020, 4000 and 6050.
\<close>

theorem declared_monotone:
  "(predefined cfg' = predefined cfg \<and> cuda_version cfg \<le> cuda_version cfg' \<longrightarrow>
      set (declared cfg stubs_h) \<subseteq> set (declared cfg' stubs_h))
   \<and> (''C_STUBS_H'' \<notin> set (predefined cfg) \<longrightarrow>
      set (decls_of wrappers) \<subseteq> set (declared cfg stubs_h))
   \<and> length (decls_of wrappers) = 8
   \<and> map fst (version_blocks stubs_h) = [3020, 4000, 6050]"
proof -
  have 1: "set (declared cfg stubs_h) \<subseteq> set (declared cfg' stubs_h)"
    if "predefined cfg' = predefined cfg" "cuda_version cfg \<le> cuda_version cfg'"
    using that by (auto simp: declared_stubs_h split: if_splits)
  have 2: "set (decls_of wrappers) \<subseteq> set (declared cfg stubs_h)"
    if "''C_STUBS_H'' \<notin> set (predefined cfg)"
    using that by (simp add: declared_stubs_h)
  have 3: "length (decls_of wrappers) = 8"
    by code_simp
  show ?thesis
    using 1 2 3 by (simp add: version_blocks_stubs_h)
qed

text \<open>C9, between an SDK of version 3020 and one of version 4000.\<close>

theorem declared_monotone_witness:
  "predefined (sdk 4000) = predefined (sdk 3020) \<and> cuda_version (sdk 3020) \<le> cuda_version (sdk 4000)
   \<and> set (declared (sdk 3020) stubs_h) \<subseteq> set (declared (sdk 4000) stubs_h)
   \<and> ''C_STUBS_H'' \<notin> set (predefined (sdk 3020))
   \<and> set (decls_of wrappers) \<subseteq> set (declared (sdk 3020) stubs_h)"
proof -
  have h: "predefined (sdk 4000) = predefined (sdk 3020)" "cuda_version (sdk 3020) \<le> cuda_version (sdk 4000)"
    "''C_STUBS_H'' \<notin> set (predefined (sdk 3020))"
    by (simp_all add: sdk_def cuda_version_def)
  show ?thesis
    using h declared_monotone [of "sdk 4000" "sdk 3020"] by simp
qed

text \<open>
  C10. For \<^verbatim>\<open>cuMemcpy2DHtoD\<close>, \<^verbatim>\<open>cuMemcpy2DDtoH\<close>, \<^verbatim>\<open>cuMemcpy2DDtoD\<close>, \<^verbatim>\<open>cuMemcpyHtoD\<close>,
  \<^verbatim>\<open>cuMemcpyDtoH\<close> and \<^verbatim>\<open>cuMemcpyDtoD\<close> the file declares the function and its
  \<^verbatim>\<open>Async\<close> variant, the variant having the same return type, the same annotation and the
  same parameters followed by one \<^verbatim>\<open>CUstream hStream\<close>; and these six are all the
  declarations of the file whose name ends in \<^verbatim>\<open>Async\<close>.
\<close>

theorem async_pairs:
  "list_all (\<lambda>n. case (find_decl n stubs_h, find_decl (n @ ''Async'') stubs_h) of
                   (Some d, Some a) \<Rightarrow> async_of d a
                 | _ \<Rightarrow> False)
     [''cuMemcpy2DHtoD'', ''cuMemcpy2DDtoH'', ''cuMemcpy2DDtoD'',
      ''cuMemcpyHtoD'', ''cuMemcpyDtoH'', ''cuMemcpyDtoD'']
   \<and> filter (suffix ''Async'') (decl_names stubs_h) =
       map (\<lambda>n. n @ ''Async'')
         [''cuMemcpy2DHtoD'', ''cuMemcpy2DDtoH'', ''cuMemcpy2DDtoD'',
          ''cuMemcpyHtoD'', ''cuMemcpyDtoH'', ''cuMemcpyDtoD'']"
  by code_simp

end
